theory Spec2Isabelle
  imports Complex_Main
begin

section \<open>Data model\<close>

text \<open>
  The monitor (\<^verbatim>\<open>monitor/speed-monitor.ts\<close> and its Ookla variant) and the API server
  (\<^verbatim>\<open>monitor/api-server.ts\<close>) share two JSON files. Every instant is a number of
  milliseconds since the epoch, as \<^verbatim>\<open>Date.now()\<close> gives it.

  A reading stores its timestamp as an ISO string; the only use the monitor makes of it is
  \<^verbatim>\<open>new Date(d.timestamp)\<close>, which is either an instant or \<^verbatim>\<open>Invalid Date\<close>. The field
  is modelled by the date that this constructor yields.
\<close>

datatype date = Time int | InvalidDate

record SpeedResult =
  timestamp :: date
  download :: rat
  upload :: rat
  ping :: rat
  jitter :: rat
  server :: "string option"
  isp :: "string option"

text \<open>JSON values, as \<^verbatim>\<open>JSON.parse\<close> and \<^verbatim>\<open>express.json()\<close> deliver them. Numbers are
  integers here: the interval is the only number the server inspects.\<close>

datatype json =
    JNull
  | JBool bool
  | JNum int
  | JStr string
  | JArr "json list"
  | JObj "(string \<times> json) list"

text \<open>
  \<^verbatim>\<open>interface Config { intervalMinutes: number }\<close>. The stored object may carry further
  properties (the dashboard's type has an optional \<^verbatim>\<open>method\<close>); they are kept in
  \<open>others\<close>, in the order of the file.
\<close>

record Config =
  intervalMinutes :: int
  others :: "(string \<times> json) list"

text \<open>
  A file is absent (\<open>None\<close>), or holds text that \<^verbatim>\<open>JSON.parse\<close> rejects, or holds the
  JSON text of a value; \<^verbatim>\<open>JSON.parse\<close> of what \<^verbatim>\<open>JSON.stringify\<close> wrote is that value, at
  the type the program declares for it. Reads and writes of the medium itself succeed.
\<close>

datatype 'a content = Unparseable | Parsed 'a

record files =
  dataFile :: "SpeedResult list content option"
  configFile :: "Config content option"

datatype error = MeasurementError string

section \<open>Storage functions of the monitor\<close>

definition loadData :: "files \<Rightarrow> SpeedResult list" where
  "loadData fs =
     (case dataFile fs of
        None \<Rightarrow> []
      | Some Unparseable \<Rightarrow> []
      | Some (Parsed data) \<Rightarrow> data)"

definition saveData :: "SpeedResult list \<Rightarrow> files \<Rightarrow> files" where
  "saveData results fs = fs\<lparr>dataFile := Some (Parsed results)\<rparr>"

definition defaultConfig :: Config where
  "defaultConfig = \<lparr>intervalMinutes = 30, others = []\<rparr>"

text \<open>\<^verbatim>\<open>loadConfig\<close> is the same function in the monitor and in the API server. It
  returns the configuration together with the files, which it changes when it
  materialises the default.\<close>

definition loadConfig :: "files \<Rightarrow> Config \<times> files" where
  "loadConfig fs =
     (case configFile fs of
        None \<Rightarrow> (defaultConfig, fs\<lparr>configFile := Some (Parsed defaultConfig)\<rparr>)
      | Some Unparseable \<Rightarrow> (defaultConfig, fs)
      | Some (Parsed config) \<Rightarrow> (config, fs))"

definition saveConfig :: "Config \<Rightarrow> files \<Rightarrow> files" where
  "saveConfig config fs = fs\<lparr>configFile := Some (Parsed config)\<rparr>"

section \<open>Retention\<close>

text \<open>
  The local time zone of the process, as the runtime's \<^verbatim>\<open>Date\<close> uses it: \<open>utcOffset t\<close> is
  the offset of local time from UTC, in milliseconds, at the instant \<open>t\<close>; \<open>localOffset l\<close>
  is the offset in force at the local time \<open>l\<close>. The two differ around a change of the
  offset (daylight saving time).
\<close>

record timezone =
  utcOffset :: "int \<Rightarrow> int"
  localOffset :: "int \<Rightarrow> int"

text \<open>
  \<^verbatim>\<open>const sevenDaysAgo = new Date(); sevenDaysAgo.setDate(sevenDaysAgo.getDate() - 7)\<close>.
  \<^verbatim>\<open>getDate\<close> reads the day of the month of the local time of \<open>now\<close>; \<^verbatim>\<open>setDate\<close> moves
  that local time back by seven calendar days, keeping the time within the day, and
  converts the result back to an instant with the offset in force at the new local time.
\<close>

definition sevenDaysAgo :: "timezone \<Rightarrow> int \<Rightarrow> int" where
  "sevenDaysAgo z now =
     (let localTime = now + utcOffset z now;
          newDate = localTime - 7 * 24 * 60 * 60 * 1000
      in newDate - localOffset z newDate)"

text \<open>\<^verbatim>\<open>new Date(d.timestamp) > sevenDaysAgo\<close>: a comparison with an invalid date is
  false.\<close>

fun dateAfter :: "date \<Rightarrow> int \<Rightarrow> bool" where
  "dateAfter (Time t) limit = (t > limit)"
| "dateAfter InvalidDate limit = False"

definition filteredData :: "timezone \<Rightarrow> int \<Rightarrow> SpeedResult list \<Rightarrow> SpeedResult list" where
  "filteredData z now data = filter (\<lambda>d. dateAfter (timestamp d) (sevenDaysAgo z now)) data"

section \<open>The monitor process\<close>

text \<open>
  The state of the process: the two module variables \<^verbatim>\<open>timeoutId\<close> and
  \<^verbatim>\<open>lastConfigCheck\<close>, the files, and the timers of the runtime that are armed and have
  not fired, each with its handle and the delay given to \<^verbatim>\<open>setTimeout\<close>. \<open>suspended\<close>
  counts the calls of \<^verbatim>\<open>runMonitor\<close> that wait for \<^verbatim>\<open>measureSpeed\<close>. \<open>zone\<close> is the
  local time zone the process runs in.
\<close>

record process =
  files :: files
  timeoutId :: "nat option"
  lastConfigCheck :: int
  timers :: "(nat \<times> int) list"
  nextHandle :: nat
  suspended :: nat
  zone :: timezone

definition setTimeout :: "int \<Rightarrow> process \<Rightarrow> nat \<times> process" where
  "setTimeout delay p =
     (nextHandle p,
      p\<lparr>timers := timers p @ [(nextHandle p, delay)], nextHandle := Suc (nextHandle p)\<rparr>)"

definition clearTimeout :: "nat \<Rightarrow> process \<Rightarrow> process" where
  "clearTimeout h p = p\<lparr>timers := filter (\<lambda>t. fst t \<noteq> h) (timers p)\<rparr>"

text \<open>The throttled check at the top of \<^verbatim>\<open>runMonitor\<close>; its \<^verbatim>\<open>loadConfig\<close> may write
  the default file.\<close>

definition configCheck :: "int \<Rightarrow> process \<Rightarrow> process" where
  "configCheck now p =
     (if now - lastConfigCheck p > 10000
      then p\<lparr>files := snd (loadConfig (files p)), lastConfigCheck := now\<rparr>
      else p)"

text \<open>The \<^verbatim>\<open>try\<close> block once \<^verbatim>\<open>measureSpeed\<close> has settled: a rejection is caught and
  logged, a result is pushed onto the loaded data, which is filtered and saved. \<open>now\<close> is
  the \<^verbatim>\<open>new Date()\<close> of the filter, \<open>z\<close> the local time zone.\<close>

definition persist :: "timezone \<Rightarrow> error + SpeedResult \<Rightarrow> int \<Rightarrow> files \<Rightarrow> files" where
  "persist z outcome now fs =
     (case outcome of
        Inl e \<Rightarrow> fs
      | Inr result \<Rightarrow> saveData (filteredData z now (loadData fs @ [result])) fs)"

text \<open>The end of \<^verbatim>\<open>runMonitor\<close>: reload the configuration, clear the timer the process
  holds, arm the next one.\<close>

definition schedule :: "process \<Rightarrow> process" where
  "schedule p =
     (let (config, fs) = loadConfig (files p);
          p1 = p\<lparr>files := fs\<rparr>;
          p2 = (case timeoutId p1 of None \<Rightarrow> p1 | Some h \<Rightarrow> clearTimeout h p1);
          (h, p3) = setTimeout (intervalMinutes config * 60 * 1000) p2
      in p3\<lparr>timeoutId := Some h\<rparr>)"

text \<open>\<^verbatim>\<open>runMonitor\<close> is asynchronous: it runs up to the \<^verbatim>\<open>await\<close> of the measurement,
  and resumes when the measurement has settled.\<close>

definition runMonitor_begin :: "int \<Rightarrow> process \<Rightarrow> process" where
  "runMonitor_begin now p = (configCheck now p)\<lparr>suspended := Suc (suspended p)\<rparr>"

definition runMonitor_resume :: "error + SpeedResult \<Rightarrow> int \<Rightarrow> process \<Rightarrow> process" where
  "runMonitor_resume outcome now p =
     schedule
       (p\<lparr>files := persist (zone p) outcome now (files p), suspended := suspended p - 1\<rparr>)"

text \<open>Another process (the API server, an editor) rewrites the files.\<close>

definition external :: "(files \<Rightarrow> files) \<Rightarrow> process \<Rightarrow> process" where
  "external env p = p\<lparr>files := env (files p)\<rparr>"

text \<open>A timer fires: it leaves the armed timers and its callback calls \<^verbatim>\<open>runMonitor\<close>.\<close>

definition expire :: "nat \<Rightarrow> process \<Rightarrow> process" where
  "expire h p = p\<lparr>timers := filter (\<lambda>t. fst t \<noteq> h) (timers p)\<rparr>"

text \<open>One whole cycle: the start at \<open>now0\<close>, what other processes do to the files while
  the measurement runs, the outcome of the measurement, and the rest at \<open>now1\<close>.\<close>

definition cycle ::
  "int \<Rightarrow> (files \<Rightarrow> files) \<Rightarrow> error + SpeedResult \<Rightarrow> int \<Rightarrow> process \<Rightarrow> process" where
  "cycle now0 env outcome now1 p =
     runMonitor_resume outcome now1 (external env (runMonitor_begin now0 p))"

text \<open>The delay of the timer armed last.\<close>

definition armed :: "process \<Rightarrow> int option" where
  "armed p = (if timers p = [] then None else Some (snd (last (timers p))))"

text \<open>
  The top level of the script: the module variables are initialised, the configuration is
  loaded once for the banner, and \<^verbatim>\<open>runMonitor()\<close> is called. \<open>loaded\<close> is the
  \<^verbatim>\<open>Date.now()\<close> that initialises \<^verbatim>\<open>lastConfigCheck\<close>, \<open>now\<close> the one at the top of the
  first \<^verbatim>\<open>runMonitor\<close>, \<open>z\<close> the local time zone. \<open>argv\<close> stands for
  \<^verbatim>\<open>process.argv\<close>, which the script never reads. The result is the configuration shown
  in the banner and the process, suspended in its first measurement.
\<close>

definition startup ::
  "string list \<Rightarrow> timezone \<Rightarrow> int \<Rightarrow> int \<Rightarrow> files \<Rightarrow> Config \<times> process" where
  "startup argv z loaded now fs =
     (let (initialConfig, fs') = loadConfig fs
      in (initialConfig,
          runMonitor_begin now
            \<lparr>files = fs', timeoutId = None, lastConfigCheck = loaded, timers = [],
             nextHandle = 0, suspended = 0, zone = z\<rparr>))"

text \<open>The steps of the running process, and the states it reaches.\<close>

inductive step :: "process \<Rightarrow> process \<Rightarrow> bool" where
  fire: "(h, d) \<in> set (timers p) \<Longrightarrow> step p (runMonitor_begin now (expire h p))"
| resume: "0 < suspended p \<Longrightarrow> step p (runMonitor_resume outcome now p)"
| interfere: "step p (external env p)"

inductive reachable :: "process \<Rightarrow> bool" where
  at_start: "reachable (snd (startup argv z loaded now fs))"
| after_step: "reachable p \<Longrightarrow> step p q \<Longrightarrow> reachable q"

section \<open>The API server\<close>

text \<open>What a handler passes to \<^verbatim>\<open>res.json\<close>, and the status it sets (200 unless
  \<^verbatim>\<open>res.status\<close> is called).\<close>

datatype payload =
    Undefined
  | Null
  | Reading SpeedResult
  | Success int
  | Error string

record response =
  status :: nat
  body :: payload

text \<open>\<^verbatim>\<open>data[i]\<close> on an array: \<^verbatim>\<open>undefined\<close> outside the range.\<close>

definition element :: "SpeedResult list \<Rightarrow> int \<Rightarrow> payload" where
  "element data i =
     (if 0 \<le> i \<and> i < int (length data) then Reading (data ! nat i) else Undefined)"

text \<open>\<^verbatim>\<open>GET /api/speed-data/latest\<close>. A file that does not parse makes \<^verbatim>\<open>JSON.parse\<close>
  throw, which the handler catches.\<close>

definition get_latest :: "files \<Rightarrow> response" where
  "get_latest fs =
     (case dataFile fs of
        None \<Rightarrow> \<lparr>status = 200, body = Null\<rparr>
      | Some Unparseable \<Rightarrow> \<lparr>status = 500, body = Error ''Failed to load latest data''\<rparr>
      | Some (Parsed data) \<Rightarrow>
          \<lparr>status = 200, body = element data (int (length data) - 1)\<rparr>)"

text \<open>\<^verbatim>\<open>PUT /api/config\<close>. The request body is a JSON object; \<^verbatim>\<open>typeof\<close> is
  \<^verbatim>\<open>'number'\<close> for \<open>JNum\<close> only, and a missing property is \<^verbatim>\<open>undefined\<close>.\<close>

definition put_config :: "(string \<times> json) list \<Rightarrow> files \<Rightarrow> response \<times> files" where
  "put_config reqBody fs =
     (case map_of reqBody ''intervalMinutes'' of
        Some (JNum i) \<Rightarrow>
          if i < 1 \<or> i > 1440
          then (\<lparr>status = 400, body = Error ''Invalid interval (must be 1-1440 minutes)''\<rparr>, fs)
          else (\<lparr>status = 200, body = Success i\<rparr>,
                saveConfig \<lparr>intervalMinutes = i, others = []\<rparr> fs)
      | _ \<Rightarrow> (\<lparr>status = 400, body = Error ''Invalid interval (must be 1-1440 minutes)''\<rparr>, fs))"

section \<open>Example data\<close>

text \<open>A reading completed at the given instant, and a store whose configuration has the
  given interval and a \<^verbatim>\<open>method\<close> property.\<close>

definition sample :: "int \<Rightarrow> SpeedResult" where
  "sample t =
     \<lparr>timestamp = Time t, download = 93.42, upload = 37.37, ping = 14.2, jitter = 2.1,
      server = None, isp = None\<rparr>"

definition stored :: "int \<Rightarrow> files" where
  "stored i =
     \<lparr>dataFile = None,
      configFile = Some (Parsed \<lparr>intervalMinutes = i, others = [(''method'', JStr ''ookla'')]\<rparr>)\<rparr>"

text \<open>Two time zones: UTC, and the zone of New York around the change to daylight
  saving time of 10 March 2024, 07:00 UTC (local 02:00, offset from -5 h to -4 h).\<close>

definition utc :: timezone where
  "utc = \<lparr>utcOffset = (\<lambda>t. 0), localOffset = (\<lambda>l. 0)\<rparr>"

definition newYork :: timezone where
  "newYork =
     \<lparr>utcOffset = (\<lambda>t. if t < 1710054000000 then - 18000000 else - 14400000),
      localOffset = (\<lambda>l. if l < 1710039600000 then - 18000000 else - 14400000)\<rparr>"

section \<open>Basic facts\<close>

lemma loadConfig_dataFile: "dataFile (snd (loadConfig fs)) = dataFile fs"
  by (simp add: loadConfig_def split: option.splits content.splits)

lemma loadConfig_twice: "fst (loadConfig (snd (loadConfig fs))) = fst (loadConfig fs)"
  by (simp add: loadConfig_def split: option.splits content.splits)

lemma persist_configFile: "configFile (persist z outcome now fs) = configFile fs"
  by (simp add: persist_def saveData_def split: sum.splits)


lemma schedule_files: "files (schedule p) = snd (loadConfig (files p))"
  by (simp add: schedule_def setTimeout_def clearTimeout_def Let_def
      split: prod.splits option.splits)

lemma schedule_timers:
  "timers (schedule p) =
     (case timeoutId p of None \<Rightarrow> timers p | Some h \<Rightarrow> filter (\<lambda>t. fst t \<noteq> h) (timers p))
     @ [(nextHandle p, intervalMinutes (fst (loadConfig (files p))) * 60 * 1000)]"
  by (simp add: schedule_def setTimeout_def clearTimeout_def Let_def
      split: prod.splits option.splits)

lemma schedule_timeoutId: "timeoutId (schedule p) = Some (nextHandle p)"
  by (simp add: schedule_def setTimeout_def clearTimeout_def Let_def
      split: prod.splits option.splits)

lemma schedule_armed:
  "armed (schedule p) = Some (intervalMinutes (fst (loadConfig (files p))) * 60 * 1000)"
  by (simp add: armed_def schedule_timers)

lemma schedule_suspended: "suspended (schedule p) = suspended p"
  by (simp add: schedule_def setTimeout_def clearTimeout_def Let_def
      split: prod.splits option.splits)

lemma configCheck_dataFile: "dataFile (files (configCheck now p)) = dataFile (files p)"
  by (simp add: configCheck_def loadConfig_dataFile)

lemma begin_dataFile: "dataFile (files (runMonitor_begin now p)) = dataFile (files p)"
  by (simp add: runMonitor_begin_def configCheck_dataFile)

lemma resume_files:
  "files (runMonitor_resume outcome now p) =
     snd (loadConfig (persist (zone p) outcome now (files p)))"
  by (simp add: runMonitor_resume_def schedule_files)

lemma resume_armed:
  "armed (runMonitor_resume outcome now p) =
     Some (intervalMinutes (fst (loadConfig (persist (zone p) outcome now (files p))))
           * 60 * 1000)"
  by (simp add: runMonitor_resume_def schedule_armed)

lemma cycle_armed:
  "armed (cycle now0 env outcome now1 p) =
     Some (intervalMinutes
             (fst (loadConfig
                    (persist (zone p) outcome now1 (env (files (runMonitor_begin now0 p))))))
           * 60 * 1000)"
  by (simp add: cycle_def external_def resume_armed runMonitor_begin_def configCheck_def)

lemma put_config_valid:
  "map_of reqBody ''intervalMinutes'' = Some (JNum i) \<Longrightarrow> 1 \<le> i \<Longrightarrow> i \<le> 1440 \<Longrightarrow>
   put_config reqBody fs =
     (\<lparr>status = 200, body = Success i\<rparr>,
      fs\<lparr>configFile := Some (Parsed \<lparr>intervalMinutes = i, others = []\<rparr>)\<rparr>)"
  by (simp add: put_config_def saveConfig_def)

lemma put_config_invalid:
  "map_of reqBody ''intervalMinutes'' = Some (JNum i) \<Longrightarrow> i < 1 \<or> 1440 < i \<Longrightarrow>
   put_config reqBody fs =
     (\<lparr>status = 400, body = Error ''Invalid interval (must be 1-1440 minutes)''\<rparr>, fs)"
  by (simp add: put_config_def)

section \<open>Retention filter\<close>

lemma dateAfter_case:
  "dateAfter x limit = (case x of Time t \<Rightarrow> limit < t | InvalidDate \<Rightarrow> False)"
  by (cases x) simp_all

text \<open>
  C1 (as the code has it). The filter of the append cycle keeps, in their order, exactly
  the readings whose timestamp is an instant strictly later than its limit, and removes
  the others: those at or before the limit, and those whose timestamp is no valid date.
  The limit is the instant seven calendar days before the current time on the local
  clock. Where the local offset from UTC is the same at both ends of that week, the limit
  is the current time minus \<open>7 \<times> 24\<close> hours, and a reading whose timestamp equals it is
  removed; across a change of the offset the limit is off by the change.
\<close>

theorem retention_removes_not_after:
  "filteredData z now data =
     filter
       (\<lambda>d. case timestamp d of
               Time t \<Rightarrow>
                 now + utcOffset z now - 7 * 24 * 60 * 60 * 1000
                   - localOffset z (now + utcOffset z now - 7 * 24 * 60 * 60 * 1000) < t
             | InvalidDate \<Rightarrow> False)
       data
   \<and> (utcOffset z now = localOffset z (now + utcOffset z now - 7 * 24 * 60 * 60 * 1000) \<longrightarrow>
        filteredData z now data =
          filter
            (\<lambda>d. case timestamp d of
                    Time t \<Rightarrow> now - 7 * 24 * 60 * 60 * 1000 < t
                  | InvalidDate \<Rightarrow> False)
            data
        \<and> (\<forall>d\<in>set data.
              timestamp d = Time (now - 7 * 24 * 60 * 60 * 1000) \<longrightarrow>
              d \<notin> set (filteredData z now data)))"
proof -
  let ?week = "7 * 24 * 60 * 60 * 1000 :: int"
  let ?limit = "now + utcOffset z now - ?week - localOffset z (now + utcOffset z now - ?week)"
  have limit: "sevenDaysAgo z now = ?limit"
    by (simp add: sevenDaysAgo_def Let_def)
  have exact: "filteredData z now data =
      filter (\<lambda>d. case timestamp d of Time t \<Rightarrow> ?limit < t | InvalidDate \<Rightarrow> False) data"
    unfolding filteredData_def limit dateAfter_case by (rule refl)
  have same: "?limit = now - ?week"
    if "utcOffset z now = localOffset z (now + utcOffset z now - ?week)"
    using that by simp
  have week: "filteredData z now data =
      filter (\<lambda>d. case timestamp d of Time t \<Rightarrow> now - ?week < t | InvalidDate \<Rightarrow> False) data"
    if "utcOffset z now = localOffset z (now + utcOffset z now - ?week)"
    unfolding exact same [OF that] by (rule refl)
  have boundary: "\<forall>d\<in>set data. timestamp d = Time (now - ?week) \<longrightarrow>
      d \<notin> set (filteredData z now data)"
    if "utcOffset z now = localOffset z (now + utcOffset z now - ?week)"
    unfolding week [OF that] by auto
  from exact week boundary show ?thesis
    by blast
qed

text \<open>
  In UTC with the current time 1700000000000 the limit is 1699395200000: of three readings
  one second before, at, and one second after it, only the last one stays. In New York at
  1710331200000 (13 March 2024, 08:00 local time) the limit is 6 March, 08:00 local time,
  which is 1709730000000, one hour less than seven times 24 hours back: the reading of
  1709728200000 is removed, and so is the one at the limit.
\<close>

theorem retention_removes_not_after_witness:
  "utcOffset utc 1700000000000
     = localOffset utc (1700000000000 + utcOffset utc 1700000000000 - 7 * 24 * 60 * 60 * 1000)
   \<and> sample 1699395200000
       \<in> set [sample 1699395199000, sample 1699395200000, sample 1699395201000]
   \<and> timestamp (sample 1699395200000) = Time (1700000000000 - 7 * 24 * 60 * 60 * 1000)
   \<and> sample 1699395200000
       \<notin> set (filteredData utc 1700000000000
                 [sample 1699395199000, sample 1699395200000, sample 1699395201000])
   \<and> filteredData utc 1700000000000
       [sample 1699395199000, sample 1699395200000, sample 1699395201000]
     = [sample 1699395201000]
   \<and> filteredData newYork 1710331200000
       [sample 1709728200000, sample 1709730000000, sample 1709730000001]
     = [sample 1709730000001]"
proof -
  have offset: "utcOffset utc 1700000000000
     = localOffset utc (1700000000000 + utcOffset utc 1700000000000 - 7 * 24 * 60 * 60 * 1000)"
    by (simp add: utc_def)
  have there: "sample 1699395200000
       \<in> set [sample 1699395199000, sample 1699395200000, sample 1699395201000]"
    by simp
  have stamp: "timestamp (sample 1699395200000) = Time (1700000000000 - 7 * 24 * 60 * 60 * 1000)"
    by (simp add: sample_def)
  note a = retention_removes_not_after [of utc 1700000000000
      "[sample 1699395199000, sample 1699395200000, sample 1699395201000]"]
  note b = retention_removes_not_after [of newYork 1710331200000
      "[sample 1709728200000, sample 1709730000000, sample 1709730000001]"]
  from a offset there stamp have gone: "sample 1699395200000
       \<notin> set (filteredData utc 1700000000000
                 [sample 1699395199000, sample 1699395200000, sample 1699395201000])"
    by blast
  from a have kept: "filteredData utc 1700000000000
       [sample 1699395199000, sample 1699395200000, sample 1699395201000]
     = [sample 1699395201000]"
    by (simp add: utc_def sample_def)
  from b have dst: "filteredData newYork 1710331200000
       [sample 1709728200000, sample 1709730000000, sample 1709730000001]
     = [sample 1709730000001]"
    by (simp add: newYork_def sample_def)
  from offset there stamp gone kept dst show ?thesis
    by blast
qed

text \<open>C1 as stated asks that the reading whose timestamp equals the current time minus
  seven days is retained. The filter removes it (here in UTC, where the calendar week is
  seven times 24 hours).\<close>

theorem retention_boundary_removed:
  "timestamp (sample (1700000000000 - 7 * 24 * 60 * 60 * 1000))
     = Time (1700000000000 - 7 * 24 * 60 * 60 * 1000)
   \<and> sample (1700000000000 - 7 * 24 * 60 * 60 * 1000)
       \<notin> set (filteredData utc 1700000000000
                 [sample (1700000000000 - 7 * 24 * 60 * 60 * 1000)])"
  by (simp add: sample_def filteredData_def sevenDaysAgo_def utc_def)

section \<open>Rescheduling\<close>

text \<open>
  C2. The timer armed at the end of a cycle has the delay computed from the interval that
  \<^verbatim>\<open>loadConfig\<close> reads after the persistence step, from the files as other processes
  left them during the measurement. In particular, when the stored interval is 30 at the
  start of the cycle and the API server handles \<^verbatim>\<open>PUT /api/config\<close> with
  \<^verbatim>\<open>{intervalMinutes: 5}\<close> while the measurement runs, the timer armed after that cycle
  has the delay of 5 minutes, whatever the measurement's outcome.
\<close>

theorem next_timer_uses_reloaded_interval:
  "armed (cycle now0 env outcome now1 p) =
     Some (intervalMinutes
             (fst (loadConfig
                    (persist (zone p) outcome now1 (env (files (runMonitor_begin now0 p))))))
           * 60 * 1000)
   \<and> (intervalMinutes (fst (loadConfig (files p))) = 30 \<longrightarrow>
        armed (cycle now0 (\<lambda>fs. snd (put_config [(''intervalMinutes'', JNum 5)] fs))
                 outcome now1 p)
          = Some (5 * 60 * 1000))"
proof -
  let ?put = "\<lambda>fs. snd (put_config [(''intervalMinutes'', JNum 5)] fs)"
  have "configFile (persist z outcome now1 (?put fs)) =
          Some (Parsed \<lparr>intervalMinutes = 5, others = []\<rparr>)" for z fs
    by (simp add: persist_configFile put_config_def saveConfig_def)
  then have "fst (loadConfig (persist z outcome now1 (?put fs))) =
          \<lparr>intervalMinutes = 5, others = []\<rparr>" for z fs
    by (simp add: loadConfig_def)
  then show ?thesis
    by (simp add: cycle_armed)
qed

text \<open>A process started on a store with interval 30; the update to 5 arrives during its
  first measurement.\<close>

theorem next_timer_uses_reloaded_interval_witness:
  "intervalMinutes (fst (loadConfig (files (snd (startup [] utc 0 0 (stored 30)))))) = 30
   \<and> armed (cycle 1800000 (\<lambda>fs. snd (put_config [(''intervalMinutes'', JNum 5)] fs))
              (Inr (sample 1805000)) 1805001 (snd (startup [] utc 0 0 (stored 30))))
       = Some 300000"
proof -
  have h: "intervalMinutes (fst (loadConfig (files (snd (startup [] utc 0 0 (stored 30)))))) = 30"
    by (simp add: startup_def loadConfig_def stored_def runMonitor_begin_def configCheck_def)
  from h next_timer_uses_reloaded_interval
    [where ?now0.0 = 1800000 and outcome = "Inr (sample 1805000)" and ?now1.0 = 1805001
       and p = "snd (startup [] utc 0 0 (stored 30))", THEN conjunct2]
  show ?thesis by simp
qed

section \<open>Failed measurements\<close>

text \<open>
  C3. When \<^verbatim>\<open>measureSpeed\<close> rejects, the cycle leaves the history file as it was and
  still arms the next timer, with the delay of the interval then stored; the same holds
  for a second failing cycle that follows the first one's timer. Other processes may
  rewrite the configuration during either measurement, as long as they leave the history
  file alone.
\<close>

theorem failed_measurement_keeps_history:
  assumes "\<forall>fs. dataFile (env1 fs) = dataFile fs"
    and "\<forall>fs. dataFile (env2 fs) = dataFile fs"
    and "p1 = cycle now0 env1 (Inl e1) now1 p"
    and "p2 = cycle now2 env2 (Inl e2) now3 (expire h p1)"
  shows "dataFile (files p1) = dataFile (files p)
       \<and> armed p1 = Some (intervalMinutes (fst (loadConfig (files p1))) * 60 * 1000)
       \<and> dataFile (files p2) = dataFile (files p)
       \<and> armed p2 = Some (intervalMinutes (fst (loadConfig (files p2))) * 60 * 1000)"
proof -
  have files: "files (cycle n env (Inl e) m q) =
                 snd (loadConfig (env (files (runMonitor_begin n q))))" for n env e m q
    by (simp add: cycle_def external_def resume_files persist_def)
  have kept: "dataFile (files (cycle n env (Inl e) m q)) = dataFile (files q)"
    if "\<forall>fs. dataFile (env fs) = dataFile fs" for n env e m q
    using that by (simp add: files loadConfig_dataFile begin_dataFile)
  have arm: "armed (cycle n env (Inl e) m q) =
               Some (intervalMinutes (fst (loadConfig (files (cycle n env (Inl e) m q))))
                     * 60 * 1000)" for n env e m q
    by (simp add: files loadConfig_twice cycle_armed persist_def)
  have "dataFile (files (expire h p1)) = dataFile (files p1)"
    by (simp add: expire_def)
  with assms kept [of env1 now0 e1 now1 p] kept [of env2 now2 e2 now3 "expire h p1"] arm
  show ?thesis by simp
qed

text \<open>Two failing cycles on a history of one reading; the interval is changed from 30 to 5
  during the first measurement.\<close>

theorem failed_measurement_keeps_history_witness:
  "(\<forall>fs. dataFile (snd (put_config [(''intervalMinutes'', JNum 5)] fs)) = dataFile fs)
   \<and> (\<forall>fs. dataFile (id fs) = dataFile fs)
   \<and> dataFile (files
        (cycle 3600000 id (Inl (MeasurementError ''timeout'')) 3610000
          (expire 0
            (cycle 1800000 (\<lambda>fs. snd (put_config [(''intervalMinutes'', JNum 5)] fs))
               (Inl (MeasurementError ''Speedtest CLI not installed'')) 1800100
               (snd (startup [] utc 0 0 ((stored 30)\<lparr>dataFile := Some (Parsed [sample 0])\<rparr>)))))))
      = Some (Parsed [sample 0])
   \<and> armed
        (cycle 3600000 id (Inl (MeasurementError ''timeout'')) 3610000
          (expire 0
            (cycle 1800000 (\<lambda>fs. snd (put_config [(''intervalMinutes'', JNum 5)] fs))
               (Inl (MeasurementError ''Speedtest CLI not installed'')) 1800100
               (snd (startup [] utc 0 0 ((stored 30)\<lparr>dataFile := Some (Parsed [sample 0])\<rparr>))))))
      = Some 300000"
proof -
  have a: "\<forall>fs. dataFile (snd (put_config [(''intervalMinutes'', JNum 5)] fs)) = dataFile fs"
    by (simp add: put_config_def saveConfig_def)
  have b: "\<forall>fs. dataFile (id fs) = dataFile fs"
    by simp
  show ?thesis
    using a b failed_measurement_keeps_history [OF a b refl refl,
        where ?now0.0 = 1800000
          and ?e1.0 = "MeasurementError ''Speedtest CLI not installed''"
          and ?now1.0 = 1800100
          and p = "snd (startup [] utc 0 0 ((stored 30)\<lparr>dataFile := Some (Parsed [sample 0])\<rparr>))"
          and ?now2.0 = 3600000 and ?e2.0 = "MeasurementError ''timeout''"
          and ?now3.0 = 3610000 and h = 0]
    by (simp add: startup_def loadConfig_def stored_def runMonitor_begin_def configCheck_def
        cycle_def external_def runMonitor_resume_def schedule_def persist_def
        put_config_def saveConfig_def setTimeout_def clearTimeout_def expire_def Let_def)
qed

section \<open>Configuration store\<close>

text \<open>
  C4. A \<^verbatim>\<open>PUT /api/config\<close> whose \<^verbatim>\<open>intervalMinutes\<close> is an integer outside 1..1440 is
  answered with status 400 and leaves the files as they were, so that \<^verbatim>\<open>loadConfig\<close>
  returns afterwards what it would have returned before; with an integer in 1..1440 the
  update succeeds and that interval is stored.
\<close>

theorem config_update_validates_interval:
  assumes "map_of reqBody ''intervalMinutes'' = Some (JNum i)"
  shows "(i < 1 \<or> 1440 < i \<longrightarrow>
            status (fst (put_config reqBody fs)) = 400
          \<and> snd (put_config reqBody fs) = fs
          \<and> fst (loadConfig (snd (put_config reqBody fs))) = fst (loadConfig fs))
       \<and> (1 \<le> i \<and> i \<le> 1440 \<longrightarrow>
            status (fst (put_config reqBody fs)) = 200
          \<and> configFile (snd (put_config reqBody fs))
              = Some (Parsed \<lparr>intervalMinutes = i, others = []\<rparr>)
          \<and> intervalMinutes (fst (loadConfig (snd (put_config reqBody fs)))) = i)"
proof (cases "i < 1 \<or> 1440 < i")
  case True
  with assms show ?thesis
    by (auto simp: put_config_invalid)
next
  case False
  with assms show ?thesis
    by (simp add: put_config_valid loadConfig_def)
qed

text \<open>The intervals 0, 1441 and -5 are refused and the stored 30 stays; 1440 is accepted.\<close>

theorem config_update_validates_interval_witness:
  "status (fst (put_config [(''intervalMinutes'', JNum 0)] (stored 30))) = 400
   \<and> status (fst (put_config [(''intervalMinutes'', JNum 1441)] (stored 30))) = 400
   \<and> status (fst (put_config [(''intervalMinutes'', JNum (- 5))] (stored 30))) = 400
   \<and> intervalMinutes
        (fst (loadConfig (snd (put_config [(''intervalMinutes'', JNum 1441)] (stored 30))))) = 30
   \<and> status (fst (put_config [(''intervalMinutes'', JNum 1440)] (stored 30))) = 200
   \<and> intervalMinutes
        (fst (loadConfig (snd (put_config [(''intervalMinutes'', JNum 1440)] (stored 30)))))
       = 1440"
  using config_update_validates_interval [of "[(''intervalMinutes'', JNum 0)]" 0 "stored 30"]
    config_update_validates_interval [of "[(''intervalMinutes'', JNum 1441)]" 1441 "stored 30"]
    config_update_validates_interval [of "[(''intervalMinutes'', JNum (- 5))]" "- 5" "stored 30"]
    config_update_validates_interval [of "[(''intervalMinutes'', JNum 1440)]" 1440 "stored 30"]
  by (simp add: loadConfig_def stored_def)

text \<open>
  C5. \<^verbatim>\<open>loadConfig\<close> on a missing file writes the default \<^verbatim>\<open>{intervalMinutes: 30}\<close> and
  returns it; on a file that does not parse it returns the default and writes nothing.
\<close>

theorem loadConfig_defaults:
  "(configFile fs = None \<longrightarrow>
      loadConfig fs =
        (\<lparr>intervalMinutes = 30, others = []\<rparr>,
         fs\<lparr>configFile := Some (Parsed \<lparr>intervalMinutes = 30, others = []\<rparr>)\<rparr>))
   \<and> (configFile fs = Some Unparseable \<longrightarrow>
      loadConfig fs = (\<lparr>intervalMinutes = 30, others = []\<rparr>, fs))"
  by (simp add: loadConfig_def defaultConfig_def)

theorem loadConfig_defaults_witness:
  "loadConfig \<lparr>dataFile = None, configFile = None\<rparr> =
     (\<lparr>intervalMinutes = 30, others = []\<rparr>,
      \<lparr>dataFile = None, configFile = Some (Parsed \<lparr>intervalMinutes = 30, others = []\<rparr>)\<rparr>)
   \<and> loadConfig \<lparr>dataFile = None, configFile = Some Unparseable\<rparr> =
     (\<lparr>intervalMinutes = 30, others = []\<rparr>,
      \<lparr>dataFile = None, configFile = Some Unparseable\<rparr>)"
  using loadConfig_defaults [of "\<lparr>dataFile = None, configFile = None\<rparr>"]
    loadConfig_defaults [of "\<lparr>dataFile = None, configFile = Some Unparseable\<rparr>"]
  by simp

section \<open>History store\<close>

text \<open>
  C6. \<^verbatim>\<open>loadData\<close> gives the empty list when the history file is missing and when it
  does not parse. The append of the next successful cycle then writes a history of exactly
  the new reading, which reads back as such. The reading is one completed after the limit
  of the filter, the instant seven calendar days before the filter reads the clock, as
  every reading of \<^verbatim>\<open>measureSpeed\<close> is.
\<close>

theorem corrupt_history_reads_empty:
  assumes "dataFile (files p) = None \<or> dataFile (files p) = Some Unparseable"
    and "timestamp r = Time t"
    and "sevenDaysAgo (zone p) now < t"
  shows "loadData (files p) = []
       \<and> dataFile (files (runMonitor_resume (Inr r) now p)) = Some (Parsed [r])
       \<and> loadData (files (runMonitor_resume (Inr r) now p)) = [r]"
proof -
  from assms(1) have empty: "loadData (files p) = []"
    by (auto simp: loadData_def)
  from assms(2,3) have "filteredData (zone p) now [r] = [r]"
    by (simp add: filteredData_def)
  with empty have "dataFile (persist (zone p) (Inr r) now (files p)) = Some (Parsed [r])"
    by (simp add: persist_def saveData_def)
  then have "dataFile (files (runMonitor_resume (Inr r) now p)) = Some (Parsed [r])"
    by (simp add: resume_files loadConfig_dataFile)
  with empty show ?thesis
    by (simp add: loadData_def)
qed

theorem corrupt_history_reads_empty_witness:
  "loadData ((stored 30)\<lparr>dataFile := Some Unparseable\<rparr>) = []
   \<and> loadData (stored 30) = []
   \<and> dataFile (files (runMonitor_resume (Inr (sample 1710331200000)) 1710331200001
        (snd (startup [] newYork 1710331190000 1710331190000
               ((stored 30)\<lparr>dataFile := Some Unparseable\<rparr>)))))
      = Some (Parsed [sample 1710331200000])"
proof -
  have f: "files (snd (startup [] newYork 1710331190000 1710331190000
                ((stored 30)\<lparr>dataFile := Some Unparseable\<rparr>)))
             = (stored 30)\<lparr>dataFile := Some Unparseable\<rparr>"
    by (simp add: startup_def loadConfig_def stored_def runMonitor_begin_def configCheck_def)
  have a: "dataFile (files (snd (startup [] newYork 1710331190000 1710331190000
                ((stored 30)\<lparr>dataFile := Some Unparseable\<rparr>)))) = None
         \<or> dataFile (files (snd (startup [] newYork 1710331190000 1710331190000
                ((stored 30)\<lparr>dataFile := Some Unparseable\<rparr>)))) = Some Unparseable"
    by (simp add: f)
  have b: "timestamp (sample 1710331200000) = Time 1710331200000"
    by (simp add: sample_def)
  have c: "sevenDaysAgo
             (zone (snd (startup [] newYork 1710331190000 1710331190000
                ((stored 30)\<lparr>dataFile := Some Unparseable\<rparr>))))
             1710331200001 < 1710331200000"
    by (simp add: startup_def loadConfig_def stored_def runMonitor_begin_def configCheck_def
        sevenDaysAgo_def newYork_def Let_def)
  from corrupt_history_reads_empty [OF a b c] f show ?thesis
    by (simp add: loadData_def stored_def)
qed

section \<open>Pending timers\<close>

lemma begin_timers: "timers (runMonitor_begin now p) = timers p"
  by (simp add: runMonitor_begin_def configCheck_def)

lemma begin_timeoutId: "timeoutId (runMonitor_begin now p) = timeoutId p"
  by (simp add: runMonitor_begin_def configCheck_def)

lemma begin_suspended: "suspended (runMonitor_begin now p) = Suc (suspended p)"
  by (simp add: runMonitor_begin_def configCheck_def)

lemma resume_timers:
  "timers (runMonitor_resume outcome now p) =
     (case timeoutId p of None \<Rightarrow> timers p | Some h \<Rightarrow> filter (\<lambda>t. fst t \<noteq> h) (timers p))
     @ [(nextHandle p,
         intervalMinutes (fst (loadConfig (persist (zone p) outcome now (files p))))
         * 60 * 1000)]"
  by (simp add: runMonitor_resume_def schedule_timers split: option.splits)

lemma resume_timeoutId: "timeoutId (runMonitor_resume outcome now p) = Some (nextHandle p)"
  by (simp add: runMonitor_resume_def schedule_timeoutId)

lemma resume_suspended: "suspended (runMonitor_resume outcome now p) = suspended p - 1"
  by (simp add: runMonitor_resume_def schedule_suspended)

lemma held_timers_cleared:
  assumes "\<forall>t\<in>set ts. held = Some (fst t)"
  shows "(case held of None \<Rightarrow> ts | Some h \<Rightarrow> filter (\<lambda>t. fst t \<noteq> h) ts) = []"
proof (cases held)
  case None
  with assms show ?thesis by (cases ts) auto
next
  case (Some h)
  with assms show ?thesis by (auto simp: filter_empty_conv)
qed

lemma startup_state:
  "timers (snd (startup argv z loaded now fs)) = []
   \<and> suspended (snd (startup argv z loaded now fs)) = 1"
  by (simp add: startup_def begin_timers begin_suspended split: prod.splits)

lemma step_invariant:
  assumes "step p q"
    and "length (timers p) + suspended p = 1"
    and "\<forall>t\<in>set (timers p). timeoutId p = Some (fst t)"
  shows "length (timers q) + suspended q = 1 \<and> (\<forall>t\<in>set (timers q). timeoutId q = Some (fst t))"
  using assms
proof (cases rule: step.cases)
  case (fire h d now)
  from fire(2) have "timers p \<noteq> []" by auto
  with assms(2) have one: "length (timers p) = 1" and none: "suspended p = 0"
    by (cases "timers p"; simp)+
  from one fire(2) have "timers p = [(h, d)]"
    by (cases "timers p") auto
  then have "timers (expire h p) = []"
    by (simp add: expire_def)
  with none fire(1) show ?thesis
    by (simp add: begin_timers begin_suspended expire_def)
next
  case (resume outcome now)
  with assms(2) have "timers p = []" and "suspended p = 1"
    by (cases "timers p"; simp)+
  with resume(1) show ?thesis
    by (simp add: resume_timers resume_timeoutId resume_suspended split: option.splits)
next
  case (interfere env)
  with assms show ?thesis
    by (simp add: external_def)
qed

lemma reachable_invariant:
  "reachable p \<Longrightarrow>
     length (timers p) + suspended p = 1 \<and> (\<forall>t\<in>set (timers p). timeoutId p = Some (fst t))"
proof (induction rule: reachable.induct)
  case (at_start argv now fs)
  show ?case by (simp add: startup_state)
next
  case (after_step p q)
  then show ?case using step_invariant by blast
qed

text \<open>
  C7. In every reachable state at most one timer is pending. Moreover the rescheduling
  code, run in any reachable state, leaves exactly one pending timer: it clears the timer
  the process holds before it arms the new one, and every pending timer is the one held.
\<close>

theorem at_most_one_pending_timer:
  assumes "reachable p"
  shows "length (timers p) \<le> 1 \<and> length (timers (schedule p)) = 1"
proof -
  from assms have inv: "length (timers p) + suspended p = 1"
    and held: "\<forall>t\<in>set (timers p). timeoutId p = Some (fst t)"
    using reachable_invariant by blast+
  from held have "timers (schedule p) =
      [(nextHandle p, intervalMinutes (fst (loadConfig (files p))) * 60 * 1000)]"
    by (simp add: schedule_timers held_timers_cleared)
  with inv show ?thesis by simp
qed

text \<open>After the first cycle of a process started on a store with interval 30.\<close>

theorem at_most_one_pending_timer_witness:
  "reachable (runMonitor_resume (Inr (sample 5000)) 5001 (snd (startup [] utc 0 0 (stored 30))))
   \<and> timers (runMonitor_resume (Inr (sample 5000)) 5001 (snd (startup [] utc 0 0 (stored 30))))
       = [(0, 1800000)]
   \<and> length (timers (runMonitor_resume (Inr (sample 5000)) 5001
        (snd (startup [] utc 0 0 (stored 30))))) \<le> 1"
proof -
  have s: "0 < suspended (snd (startup [] utc 0 0 (stored 30)))"
    by (simp add: startup_state)
  have r: "reachable (runMonitor_resume (Inr (sample 5000)) 5001 (snd (startup [] utc 0 0 (stored 30))))"
    by (rule reachable.after_step [OF reachable.at_start step.resume [OF s]])
  have t: "timers (runMonitor_resume (Inr (sample 5000)) 5001 (snd (startup [] utc 0 0 (stored 30))))
        = [(0, 1800000)]"
    by (simp add: resume_timers startup_def loadConfig_def stored_def runMonitor_begin_def
        configCheck_def persist_def saveData_def)
  from r t at_most_one_pending_timer [OF r] show ?thesis
    by simp
qed

section \<open>Start of the process\<close>







section \<open>Latest reading\<close>

text \<open>Without a history file the handler answers \<^verbatim>\<open>null\<close>; with a history that has a
  reading it answers the last one.\<close>

lemma get_latest_absent: "dataFile fs = None \<Longrightarrow> get_latest fs = \<lparr>status = 200, body = Null\<rparr>"
  by (simp add: get_latest_def)

lemma get_latest_last:
  assumes "dataFile fs = Some (Parsed data)" and "data \<noteq> []"
  shows "get_latest fs = \<lparr>status = 200, body = Reading (last data)\<rparr>"
proof -
  from assms(2) have "0 < length data" by simp
  then have "nat (int (length data) - 1) = length data - 1" by simp
  with assms show ?thesis
    by (simp add: get_latest_def element_def last_conv_nth)
qed

text \<open>
  C9. For a history file that holds the empty array, \<^verbatim>\<open>data[data.length - 1]\<close> is
  \<^verbatim>\<open>data[-1]\<close>: the handler passes \<^verbatim>\<open>undefined\<close> to \<^verbatim>\<open>res.json\<close>, where it answers
  \<^verbatim>\<open>null\<close> for a missing file.
\<close>

theorem latest_of_empty_history:
  "get_latest \<lparr>dataFile = Some (Parsed []), configFile = None\<rparr>
     = \<lparr>status = 200, body = Undefined\<rparr>
   \<and> get_latest \<lparr>dataFile = None, configFile = None\<rparr> = \<lparr>status = 200, body = Null\<rparr>"
  by (simp add: get_latest_def element_def)

section \<open>Fields of the stored configuration\<close>

text \<open>
  C10. After a successful \<^verbatim>\<open>PUT /api/config\<close> the stored configuration is exactly
  \<^verbatim>\<open>{intervalMinutes}\<close>: no other property of the record stored before, and none of the
  request body, is in it.
\<close>

theorem config_update_keeps_interval_only:
  assumes "map_of reqBody ''intervalMinutes'' = Some (JNum i)"
    and "1 \<le> i" and "i \<le> 1440"
  shows "configFile (snd (put_config reqBody fs))
           = Some (Parsed \<lparr>intervalMinutes = i, others = []\<rparr>)
       \<and> loadConfig (snd (put_config reqBody fs))
           = (\<lparr>intervalMinutes = i, others = []\<rparr>, snd (put_config reqBody fs))"
  using assms by (simp add: put_config_valid loadConfig_def)

text \<open>The stored record has \<^verbatim>\<open>method\<close>, and so has the request body; the record stored
  afterwards has the interval only.\<close>

theorem config_update_keeps_interval_only_witness:
  "others (fst (loadConfig (stored 30))) = [(''method'', JStr ''ookla'')]
   \<and> configFile (snd (put_config
        [(''intervalMinutes'', JNum 5), (''method'', JStr ''netflix'')] (stored 30)))
       = Some (Parsed \<lparr>intervalMinutes = 5, others = []\<rparr>)
   \<and> others (fst (loadConfig (snd (put_config
        [(''intervalMinutes'', JNum 5), (''method'', JStr ''netflix'')] (stored 30))))) = []"
proof -
  have a: "map_of [(''intervalMinutes'', JNum 5), (''method'', JStr ''netflix'')]
             ''intervalMinutes'' = Some (JNum 5)"
    by simp
  have b: "(1::int) \<le> 5" and c: "(5::int) \<le> 1440"
    by simp_all
  have d: "others (fst (loadConfig (stored 30))) = [(''method'', JStr ''ookla'')]"
    by (simp add: loadConfig_def stored_def)
  from d config_update_keeps_interval_only [OF a b c, of "stored 30"] show ?thesis
    by simp
qed

end
